theory Spec2Isabelle
  imports Complex_Main "HOL-Library.AList"
begin

section \<open>Data model (src/db.ts, src/embedding.ts, main plugin file)\<close>

text \<open>
  Conventions of the embedding.
  \<^item> A JavaScript \<open>number\<close> that holds a vector component or a similarity is an exact
    real; the three IEEE special results a division can produce are kept as separate
    constructors of \<open>number\<close>. Rounding, underflow and overflow of the doubles are not
    modelled, so nothing below is stated about a norm that is zero only because the
    squares underflow, or about a sum that overflows: the statements about the arithmetic
    are on inputs where the exact and the rounded computation agree (a vector whose
    components are all zero), and the statements about the query hold for whatever
    number a similarity is.
  \<^item> Timestamps (\<open>file_mtime\<close>, \<open>stat.mtime\<close>, \<open>Date\<close>) are integers (milliseconds);
    \<open>last_updated\<close>, an ISO-8601 rendering of an instant in the source, is kept as that instant.
  \<^item> An \<open>EmbeddingsDatabase\<close> object is an association list in the order of
    \<open>Object.entries\<close>; keys are document paths (never array indices, never names inherited
    from \<open>Object.prototype\<close>).
  \<^item> A rejected promise or a thrown exception is the \<open>Inl\<close> of a sum; every stateful
    operation takes the world and returns its result with the new world.
\<close>

type_synonym path = string

record EmbeddingData =
  embedding :: "real list"
  last_updated :: int
  file_mtime :: int

type_synonym EmbeddingsDatabase = "(path \<times> EmbeddingData) list"

datatype number = Num real | PosInfinity | NegInfinity | NaN

record SimilarNote =
  path :: string
  title :: string
  similarity :: number

text \<open>
  Thrown values: \<open>IoError m\<close> is the rejection of a host call (\<open>adapter.read\<close>,
  \<open>adapter.write\<close>, \<open>vault.read\<close>) with message \<open>m\<close>; \<open>SyntaxError\<close> is what
  \<open>JSON.parse\<close> throws; \<open>Error m\<close> is \<open>new Error(m)\<close> thrown by the plugin's own code.
\<close>

datatype error = IoError string | SyntaxError | Error string

fun message :: "error \<Rightarrow> string" where
  "message (IoError m) = m"
| "message SyntaxError = ''Unexpected token in JSON''"
| "message (Error m) = m"

text \<open>
  The text of \<open>embeddings.json\<close> is represented by what \<open>JSON.parse\<close> makes of it: either
  it throws, or it yields a database object. \<open>JSON.stringify\<close> of a database is the text
  that parses back to it.
\<close>

datatype blob = Unparseable | Json EmbeddingsDatabase

record TFile =
  extension :: string
  mtime :: int
  content :: "error + string"

datatype abstract_file = File TFile | Folder

datatype provider_reply = Reply "real list" | Failure "int option" string

text \<open>
  The world the plugin runs in: the file behind \<open>dbPath\<close> and whether the adapter can
  currently read and write it, the vault, the OpenAI client (\<open>openai\<close> is \<open>False\<close> for the
  \<open>null\<close> client of a blank API key), the remote provider's answer to each input with the
  log of inputs sent to it, the clock, and the number of times the update callbacks ran.
\<close>

record world =
  disk :: "blob option"
  read_error :: "error option"
  write_error :: "error option"
  vault :: "path \<Rightarrow> abstract_file option"
  openai :: bool
  embed :: "string \<Rightarrow> provider_reply"
  requests :: "string list"
  now :: int
  notified :: nat

section \<open>DatabaseManager (src/db.ts)\<close>

definition adapter_read :: "world \<Rightarrow> error + blob" where
  "adapter_read w =
     (case read_error w of
        Some e \<Rightarrow> Inl e
      | None \<Rightarrow>
          (case disk w of
             None \<Rightarrow> Inl (IoError ''ENOENT: no such file or directory'')
           | Some data \<Rightarrow> Inr data))"

definition adapter_write :: "world \<Rightarrow> blob \<Rightarrow> error + world" where
  "adapter_write w data =
     (case write_error w of
        Some e \<Rightarrow> Inl e
      | None \<Rightarrow> Inr (w\<lparr>disk := Some data\<rparr>))"

fun JSON_parse :: "blob \<Rightarrow> error + EmbeddingsDatabase" where
  "JSON_parse Unparseable = Inl SyntaxError"
| "JSON_parse (Json db) = Inr db"

definition JSON_stringify :: "EmbeddingsDatabase \<Rightarrow> blob" where
  "JSON_stringify db = Json db"

text \<open>The body of the \<open>try\<close> block of \<open>loadDatabase\<close> (db.ts lines 49-50).\<close>

definition loadDatabase_try :: "world \<Rightarrow> error + EmbeddingsDatabase" where
  "loadDatabase_try w =
     (case adapter_read w of
        Inl e \<Rightarrow> Inl e
      | Inr data \<Rightarrow> JSON_parse data)"

text \<open>\<open>loadDatabase\<close> (db.ts lines 47-54): the \<open>catch\<close> answers every exception with \<open>{}\<close>.\<close>

definition loadDatabase :: "world \<Rightarrow> error + EmbeddingsDatabase" where
  "loadDatabase w =
     (case loadDatabase_try w of
        Inl e \<Rightarrow> Inr []
      | Inr db \<Rightarrow> Inr db)"

definition notifyUpdateCallbacks :: "world \<Rightarrow> world" where
  "notifyUpdateCallbacks w = w\<lparr>notified := Suc (notified w)\<rparr>"

definition saveDatabase :: "world \<Rightarrow> EmbeddingsDatabase \<Rightarrow> (error + unit) \<times> world" where
  "saveDatabase w db =
     (case adapter_write w (JSON_stringify db) of
        Inl e \<Rightarrow> (Inl e, w)
      | Inr w' \<Rightarrow> (Inr (), notifyUpdateCallbacks w'))"

definition saveEmbedding ::
  "world \<Rightarrow> path \<Rightarrow> real list \<Rightarrow> int \<Rightarrow> (error + unit) \<times> world" where
  "saveEmbedding w filePath emb fmtime =
     (case loadDatabase w of
        Inl e \<Rightarrow> (Inl e, w)
      | Inr db \<Rightarrow>
          saveDatabase w
            (AList.update filePath
               \<lparr>embedding = emb, last_updated = now w, file_mtime = fmtime\<rparr> db))"

definition getEmbedding :: "world \<Rightarrow> path \<Rightarrow> error + EmbeddingData option" where
  "getEmbedding w filePath =
     (case loadDatabase w of
        Inl e \<Rightarrow> Inl e
      | Inr db \<Rightarrow> Inr (map_of db filePath))"

definition getAllEmbeddings :: "world \<Rightarrow> error + EmbeddingsDatabase" where
  "getAllEmbeddings w = loadDatabase w"

definition deleteEmbedding :: "world \<Rightarrow> path \<Rightarrow> (error + unit) \<times> world" where
  "deleteEmbedding w filePath =
     (case loadDatabase w of
        Inl e \<Rightarrow> (Inl e, w)
      | Inr db \<Rightarrow> saveDatabase w (AList.delete filePath db))"

definition clearDatabase :: "world \<Rightarrow> (error + unit) \<times> world" where
  "clearDatabase w = saveDatabase w []"

section \<open>EmbeddingManager (src/embedding.ts)\<close>

text \<open>
  Strings are lists of 8-bit characters, read as the code units 0 to 255.
  \<open>String.prototype.trim\<close> strips white space and line terminators from both ends; below
  256 these are the code units 9 to 13, 32 and 160 (the no-break space).
\<close>

definition is_whitespace :: "char \<Rightarrow> bool" where
  "is_whitespace c =
     (c \<in> set [CHR 0x09, CHR 0x0A, CHR 0x0B, CHR 0x0C, CHR 0x0D, CHR 0x20, CHR 0xA0])"

definition trim :: "string \<Rightarrow> string" where
  "trim s = rev (dropWhile is_whitespace (rev (dropWhile is_whitespace s)))"

definition api_key_message :: string where
  "api_key_message =
     ''OpenAI API key not configured. Please add your key in the plugin settings.''"

text \<open>
  \<open>generateEmbedding\<close> (embedding.ts lines 23-60). The request is logged in \<open>requests\<close>
  when \<open>openai.embeddings.create\<close> is called; the \<open>catch\<close> turns the provider's failure
  (its \<open>status\<close> and \<open>message\<close>) into a fresh \<open>Error\<close>.
\<close>

definition generateEmbedding :: "world \<Rightarrow> string \<Rightarrow> (error + real list) \<times> world" where
  "generateEmbedding w text =
     (if \<not> openai w then (Inl (Error api_key_message), w)
      else if text = [] \<or> length (trim text) = 0
        then (Inl (Error ''Cannot generate embedding for empty text''), w)
      else
        (let trimmedText = take 8000 text;
             w' = w\<lparr>requests := requests w @ [trimmedText]\<rparr>
         in case embed w trimmedText of
              Reply v \<Rightarrow> (Inr v, w')
            | Failure status msg \<Rightarrow>
                (if status = Some 401
                   then (Inl (Error ''Invalid OpenAI API key. Please check your settings.''), w')
                 else if status = Some 429
                   then (Inl (Error ''OpenAI API rate limit exceeded. Please try again later.''), w')
                 else if status = Some 500
                   then (Inl (Error ''OpenAI server error. Please try again later.''), w')
                 else (Inl (Error (''Error generating embedding: ''
                         @ (if msg = [] then ''Unknown error'' else msg))), w'))))"

text \<open>
  IEEE division of two finite numbers, the only operation of \<open>calculateCosineSimilarity\<close>
  that can leave the finite numbers: \<open>0/0\<close> is \<open>NaN\<close>, \<open>x/0\<close> is an infinity with the sign
  of \<open>x\<close> (the divisor, a product of square roots, is never \<open>-0\<close>).
\<close>

definition js_div :: "real \<Rightarrow> real \<Rightarrow> number" where
  "js_div x y =
     (if y = 0 then (if x = 0 then NaN else if 0 < x then PosInfinity else NegInfinity)
      else Num (x / y))"

text \<open>The message of the length check drops the diacritics of the source's Polish text.\<close>

definition length_message :: string where
  "length_message = ''Wektory musza miec te sama dlugosc''"

definition dotProduct :: "real list \<Rightarrow> real list \<Rightarrow> real" where
  "dotProduct vec1 vec2 = foldl (\<lambda>sum (a, b). sum + a * b) 0 (zip vec1 vec2)"

definition vec_norm :: "real list \<Rightarrow> real" where
  "vec_norm vec = sqrt (foldl (\<lambda>sum a. sum + a * a) 0 vec)"

definition calculateCosineSimilarity :: "real list \<Rightarrow> real list \<Rightarrow> error + number" where
  "calculateCosineSimilarity vec1 vec2 =
     (if length vec1 \<noteq> length vec2 then Inl (Error length_message)
      else
        (let norm1 = vec_norm vec1;
             norm2 = vec_norm vec2
         in Inr (js_div (dotProduct vec1 vec2) (norm1 * norm2))))"

section \<open>findSimilarNotes (src/db.ts lines 91-144)\<close>

text \<open>The operators \<open>>=\<close>, \<open><\<close> and \<open>-\<close> on numbers, with the IEEE special values.\<close>

fun js_ge :: "number \<Rightarrow> number \<Rightarrow> bool" where
  "js_ge NaN y = False"
| "js_ge x NaN = False"
| "js_ge PosInfinity y = True"
| "js_ge x NegInfinity = True"
| "js_ge (Num a) (Num b) = (b \<le> a)"
| "js_ge x y = False"

fun js_lt :: "number \<Rightarrow> number \<Rightarrow> bool" where
  "js_lt NaN y = False"
| "js_lt x NaN = False"
| "js_lt (Num a) (Num b) = (a < b)"
| "js_lt PosInfinity y = False"
| "js_lt x NegInfinity = False"
| "js_lt x y = True"

fun js_sub :: "number \<Rightarrow> number \<Rightarrow> number" where
  "js_sub NaN y = NaN"
| "js_sub x NaN = NaN"
| "js_sub (Num a) (Num b) = Num (a - b)"
| "js_sub PosInfinity PosInfinity = NaN"
| "js_sub NegInfinity NegInfinity = NaN"
| "js_sub PosInfinity y = PosInfinity"
| "js_sub NegInfinity y = NegInfinity"
| "js_sub (Num a) PosInfinity = NegInfinity"
| "js_sub (Num a) NegInfinity = PosInfinity"

text \<open>
  \<open>Array.prototype.sort(comparefn)\<close>: a comparator result that is \<open>NaN\<close> counts as \<open>+0\<close>,
  and the sort is stable. It is modelled as the stable insertion sort, which moves an
  element behind another one only when the comparator is positive on the pair.
\<close>

fun positive :: "number \<Rightarrow> bool" where
  "positive (Num r) = (0 < r)"
| "positive PosInfinity = True"
| "positive NegInfinity = False"
| "positive NaN = False"

fun insert_by :: "('a \<Rightarrow> 'a \<Rightarrow> number) \<Rightarrow> 'a \<Rightarrow> 'a list \<Rightarrow> 'a list" where
  "insert_by cmp x [] = [x]"
| "insert_by cmp x (y # ys) =
     (if positive (cmp x y) then y # insert_by cmp x ys else x # y # ys)"

fun Array_sort :: "('a \<Rightarrow> 'a \<Rightarrow> number) \<Rightarrow> 'a list \<Rightarrow> 'a list" where
  "Array_sort cmp [] = []"
| "Array_sort cmp (x # xs) = insert_by cmp x (Array_sort cmp xs)"

text \<open>\<open>Array.prototype.slice(0, end)\<close> for an integer \<open>end\<close>; a negative one counts from the end.\<close>

definition Array_slice0 :: "int \<Rightarrow> 'a list \<Rightarrow> 'a list" where
  "Array_slice0 n xs =
     (if n < 0 then take (nat (int (length xs) + n)) xs else take (nat n) xs)"

text \<open>\<open>split\<close> on a one-character separator, \<open>replace\<close> of the first occurrence, \<open>includes\<close>.\<close>

fun split_from :: "char \<Rightarrow> string \<Rightarrow> string \<Rightarrow> string list" where
  "split_from sep cur [] = [cur]"
| "split_from sep cur (c # cs) =
     (if c = sep then cur # split_from sep [] cs else split_from sep (cur @ [c]) cs)"

definition String_split :: "char \<Rightarrow> string \<Rightarrow> string list" where
  "String_split sep s = split_from sep [] s"

definition startsWith :: "string \<Rightarrow> string \<Rightarrow> bool" where
  "startsWith s pat = (take (length pat) s = pat)"

fun String_replace :: "string \<Rightarrow> string \<Rightarrow> string \<Rightarrow> string" where
  "String_replace pat rep [] = (if pat = [] then rep else [])"
| "String_replace pat rep (c # cs) =
     (if startsWith (c # cs) pat then rep @ drop (length pat) (c # cs)
      else c # String_replace pat rep cs)"

fun String_includes :: "string \<Rightarrow> string \<Rightarrow> bool" where
  "String_includes [] pat = (pat = [])"
| "String_includes (c # cs) pat = (startsWith (c # cs) pat \<or> String_includes cs pat)"

text \<open>\<open>path.split('/').pop()?.replace('.md', '') || path\<close> (db.ts line 130).\<close>

definition title_of :: "string \<Rightarrow> string" where
  "title_of p =
     (let t = String_replace ''.md'' [] (last (String_split CHR ''/'' p))
      in if t = [] then p else t)"

text \<open>
  The \<open>try\<close> block of the branch taken when the query note has no record (lines 98-107);
  its value is dropped, both exits of the branch return \<open>[]\<close>.
\<close>

definition bootstrap :: "world \<Rightarrow> path \<Rightarrow> (error + unit) \<times> world" where
  "bootstrap w notePath =
     (case vault w notePath of
        Some (File f) \<Rightarrow>
          (if extension f = ''md'' then
             (case content f of
                Inl e \<Rightarrow> (Inl e, w)
              | Inr text \<Rightarrow>
                  (case generateEmbedding w text of
                     (Inl e, w') \<Rightarrow> (Inl e, w')
                   | (Inr emb, w') \<Rightarrow> saveEmbedding w' notePath emb (now w')))
           else (Inr (), w))
      | _ \<Rightarrow> (Inr (), w))"

text \<open>The loop over \<open>Object.entries(allEmbeddings)\<close> (lines 119-138).\<close>

fun scan :: "path \<Rightarrow> real list \<Rightarrow> number \<Rightarrow> EmbeddingsDatabase \<Rightarrow> SimilarNote list" where
  "scan notePath cur minSimilarity [] = []"
| "scan notePath cur minSimilarity ((p, d) # rest) =
     (if p \<noteq> notePath then
        (case calculateCosineSimilarity cur (embedding d) of
           Inl e \<Rightarrow> scan notePath cur minSimilarity rest
         | Inr sim \<Rightarrow>
             (if js_ge sim minSimilarity
              then \<lparr>path = p, title = title_of p, similarity = sim\<rparr>
                     # scan notePath cur minSimilarity rest
              else scan notePath cur minSimilarity rest))
      else scan notePath cur minSimilarity rest)"

definition by_similarity :: "SimilarNote \<Rightarrow> SimilarNote \<Rightarrow> number" where
  "by_similarity a b = js_sub (similarity b) (similarity a)"

definition findSimilarNotes ::
  "world \<Rightarrow> path \<Rightarrow> int \<Rightarrow> number \<Rightarrow> (error + SimilarNote list) \<times> world" where
  "findSimilarNotes w notePath maxResults minSimilarity =
     (case getEmbedding w notePath of
        Inl e \<Rightarrow> (Inl e, w)
      | Inr None \<Rightarrow>
          (case bootstrap w notePath of
             (Inl e, w') \<Rightarrow> (Inr [], w')
           | (Inr u, w') \<Rightarrow> (Inr [], w'))
      | Inr (Some currentEmbedding) \<Rightarrow>
          (case getAllEmbeddings w of
             Inl e \<Rightarrow> (Inl e, w)
           | Inr allEmbeddings \<Rightarrow>
               (Inr (Array_slice0 maxResults
                       (Array_sort by_similarity
                          (scan notePath (embedding currentEmbedding) minSimilarity
                             allEmbeddings))), w)))"

section \<open>updateNoteEmbedding (main plugin file, lines 197-224)\<close>

text \<open>The \<open>try\<close> block (lines 199-216).\<close>

definition updateNoteEmbedding_try :: "world \<Rightarrow> path \<Rightarrow> bool \<Rightarrow> (error + bool) \<times> world" where
  "updateNoteEmbedding_try w filePath forceUpdate =
     (case vault w filePath of
        Some (File f) \<Rightarrow>
          (case (if \<not> forceUpdate then
                   (case getEmbedding w filePath of
                      Inl e \<Rightarrow> Inl e
                    | Inr None \<Rightarrow> Inr False
                    | Inr (Some existingEmbedding) \<Rightarrow>
                        Inr (mtime f \<le> file_mtime existingEmbedding))
                 else Inr False) of
             Inl e \<Rightarrow> (Inl e, w)
           | Inr True \<Rightarrow> (Inr False, w)
           | Inr False \<Rightarrow>
               (case content f of
                  Inl e \<Rightarrow> (Inl e, w)
                | Inr text \<Rightarrow>
                    (case generateEmbedding w text of
                       (Inl e, w') \<Rightarrow> (Inl e, w')
                     | (Inr emb, w') \<Rightarrow>
                         (case saveEmbedding w' filePath emb (mtime f) of
                            (Inl e, w'') \<Rightarrow> (Inl e, w'')
                          | (Inr u, w'') \<Rightarrow> (Inr True, w'')))))
      | _ \<Rightarrow> (Inr False, w))"

text \<open>The \<open>catch\<close> (lines 217-223): the error of the unconfigured client is answered with \<open>false\<close>.\<close>

definition updateNoteEmbedding :: "world \<Rightarrow> path \<Rightarrow> bool \<Rightarrow> (error + bool) \<times> world" where
  "updateNoteEmbedding w filePath forceUpdate =
     (case updateNoteEmbedding_try w filePath forceUpdate of
        (Inl e, w') \<Rightarrow>
          (if String_includes (message e) ''API key not configured'' then (Inr False, w')
           else (Inl e, w'))
      | (Inr b, w') \<Rightarrow> (Inr b, w'))"

section \<open>Interleaving of the store's asynchronous operations\<close>

text \<open>
  Each mutating operation of \<open>DatabaseManager\<close> is an \<open>async\<close> function that suspends at
  \<open>await this.loadDatabase()\<close> and at \<open>await this.saveDatabase(db)\<close>. A task is such a call
  with its program counter: not started, holding the database object it loaded, or
  finished. One step runs a task up to its next suspension; a schedule names the task
  that runs at each step. Nothing in the source orders the steps of different tasks.
\<close>

datatype operation = Put path "real list" int | Remove path | Clear

datatype task = Waiting operation | Loaded operation EmbeddingsDatabase | Done "error + unit"

fun task_step :: "task \<Rightarrow> world \<Rightarrow> task \<times> world" where
  "task_step (Waiting Clear) w = (case saveDatabase w [] of (r, w') \<Rightarrow> (Done r, w'))"
| "task_step (Waiting opn) w =
     (case loadDatabase w of
        Inl e \<Rightarrow> (Done (Inl e), w)
      | Inr db \<Rightarrow> (Loaded opn db, w))"
| "task_step (Loaded (Put k v m) db) w =
     (case saveDatabase w
             (AList.update k \<lparr>embedding = v, last_updated = now w, file_mtime = m\<rparr> db) of
        (r, w') \<Rightarrow> (Done r, w'))"
| "task_step (Loaded (Remove k) db) w =
     (case saveDatabase w (AList.delete k db) of (r, w') \<Rightarrow> (Done r, w'))"
| "task_step (Loaded Clear db) w = (case saveDatabase w [] of (r, w') \<Rightarrow> (Done r, w'))"
| "task_step (Done r) w = (Done r, w)"

fun run :: "nat list \<Rightarrow> task list \<Rightarrow> world \<Rightarrow> task list \<times> world" where
  "run [] ts w = (ts, w)"
| "run (i # sched) ts w =
     (if i < length ts
      then (case task_step (ts ! i) w of (t', w') \<Rightarrow> run sched (ts[i := t']) w')
      else run sched ts w)"

section \<open>Ranking order\<close>

text \<open>A result list is descending when every element is \<open>>=\<close> every later one.\<close>

definition descending :: "SimilarNote list \<Rightarrow> bool" where
  "descending rs = sorted_wrt (\<lambda>a b. js_ge (similarity a) (similarity b)) rs"

section \<open>Concrete worlds used to exercise the theorems\<close>

definition rec_a :: EmbeddingData where
  "rec_a = \<lparr>embedding = [1, 0], last_updated = 10, file_mtime = 100\<rparr>"

definition rec_b :: EmbeddingData where
  "rec_b = \<lparr>embedding = [0, 1], last_updated = 20, file_mtime = 100\<rparr>"

definition rec_c :: EmbeddingData where
  "rec_c = \<lparr>embedding = [3, 4], last_updated = 30, file_mtime = 100\<rparr>"

definition rec_d :: EmbeddingData where
  "rec_d = \<lparr>embedding = [1, 0], last_updated = 40, file_mtime = 100\<rparr>"

definition four_notes :: EmbeddingsDatabase where
  "four_notes =
     [(''A.md'', rec_a), (''dir/B.md'', rec_b), (''dir/C.md'', rec_c), (''D.md'', rec_d)]"

definition no_vault :: "path \<Rightarrow> abstract_file option" where
  "no_vault p = None"

definition no_provider :: "string \<Rightarrow> provider_reply" where
  "no_provider t = Failure (Some 500) ''server error''"


definition refusing_provider :: "string \<Rightarrow> provider_reply" where
  "refusing_provider t = Failure (Some 403) ''API key not configured for this project''"

definition world_of :: "blob option \<Rightarrow> world" where
  "world_of b =
     \<lparr>disk = b, read_error = None, write_error = None, vault = no_vault, openai = True,
      embed = no_provider, requests = [], now = 1000, notified = 0\<rparr>"

definition note_file :: "int \<Rightarrow> abstract_file" where
  "note_file t = File \<lparr>extension = ''md'', mtime = t, content = Inr ''hello''\<rparr>"

definition one_note :: "int \<Rightarrow> path \<Rightarrow> abstract_file option" where
  "one_note t p = (if p = ''n.md'' then Some (note_file t) else None)"

definition world_unavailable :: world where
  "world_unavailable =
     (world_of (Some (Json [(''a.md'', rec_a)])))
       \<lparr>read_error := Some (IoError ''storage unavailable'')\<rparr>"

definition world_failing :: world where
  "world_failing = (world_of None)\<lparr>vault := one_note 100\<rparr>"




definition world_unconfigured :: world where
  "world_unconfigured = (world_of None)\<lparr>vault := one_note 100, openai := False\<rparr>"

definition world_refused :: world where
  "world_refused = (world_of None)\<lparr>vault := one_note 100, embed := refusing_provider\<rparr>"

section \<open>Facts about the store\<close>

lemma loadDatabase_total: "\<exists>db. loadDatabase w = Inr db"
  by (simp add: loadDatabase_def split: sum.splits)


lemma loadDatabase_readable:
  "read_error w = None \<Longrightarrow> disk w = Some (Json db) \<Longrightarrow> loadDatabase w = Inr db"
  by (simp add: loadDatabase_def loadDatabase_try_def adapter_read_def)

lemma saveDatabase_disk:
  "disk (snd (saveDatabase w db')) = (if write_error w = None then Some (Json db') else disk w)"
  by (auto simp: saveDatabase_def adapter_write_def JSON_stringify_def notifyUpdateCallbacks_def
        split: option.splits)

lemma saveDatabase_read_error: "read_error (snd (saveDatabase w db')) = read_error w"
  by (auto simp: saveDatabase_def adapter_write_def JSON_stringify_def notifyUpdateCallbacks_def
        split: option.splits)


text \<open>
  An object holds each key once. The store keeps it so: what it writes from a database
  with distinct keys has distinct keys.
\<close>

lemma loadDatabase_cases:
  assumes "loadDatabase w = Inr db"
  shows "db = [] \<or> (read_error w = None \<and> disk w = Some (Json db))"
proof (cases "adapter_read w")
  case (Inl e)
  with assms show ?thesis
    by (simp add: loadDatabase_def loadDatabase_try_def)
next
  case (Inr b)
  then have rd: "read_error w = None \<and> disk w = Some b"
    by (auto simp: adapter_read_def split: option.splits)
  show ?thesis
  proof (cases b)
    case Unparseable
    with Inr assms show ?thesis
      by (simp add: loadDatabase_def loadDatabase_try_def)
  next
    case (Json db0)
    with Inr assms have "db0 = db"
      by (simp add: loadDatabase_def loadDatabase_try_def)
    with Json rd show ?thesis by simp
  qed
qed

lemma loadDatabase_distinct:
  assumes "\<forall>db. disk w = Some (Json db) \<longrightarrow> distinct (map fst db)"
    and "loadDatabase w = Inr db"
  shows "distinct (map fst db)"
  using loadDatabase_cases [OF assms(2)] assms(1) by auto

lemma store_keeps_keys_distinct:
  assumes "\<forall>db. disk w = Some (Json db) \<longrightarrow> distinct (map fst db)"
  shows "\<forall>db'. disk (snd (saveEmbedding w k v m)) = Some (Json db') \<longrightarrow> distinct (map fst db')"
    and "\<forall>db'. disk (snd (deleteEmbedding w k)) = Some (Json db') \<longrightarrow> distinct (map fst db')"
proof -
  obtain db where db: "loadDatabase w = Inr db"
    using loadDatabase_total by blast
  have d: "distinct (map fst db)"
    using loadDatabase_distinct [OF assms db] .
  show "\<forall>db'. disk (snd (saveEmbedding w k v m)) = Some (Json db') \<longrightarrow> distinct (map fst db')"
    using db d assms by (auto simp: saveEmbedding_def saveDatabase_disk distinct_update)
  show "\<forall>db'. disk (snd (deleteEmbedding w k)) = Some (Json db') \<longrightarrow> distinct (map fst db')"
    using db d assms by (auto simp: deleteEmbedding_def saveDatabase_disk distinct_delete)
qed


section \<open>Facts about the embedding manager\<close>

lemma generateEmbedding_world:
  "generateEmbedding w t = (r, w') \<Longrightarrow>
     w' = w \<or> w' = w\<lparr>requests := requests w @ [take 8000 t]\<rparr>"
  by (auto simp: generateEmbedding_def Let_def split: if_splits provider_reply.splits)



lemma generateEmbedding_disk: "generateEmbedding w t = (r, w') \<Longrightarrow> disk w' = disk w"
  using generateEmbedding_world [of w t r w'] by auto

lemma includes_api_key_message: "String_includes api_key_message ''API key not configured''"
  by (simp add: api_key_message_def startsWith_def)

lemma foldl_squares:
  "foldl (\<lambda>sum a. sum + a * a) acc xs = acc + (\<Sum>a\<leftarrow>xs. a * a)" for acc :: real
  by (induction xs arbitrary: acc) simp_all

lemma foldl_products:
  "foldl (\<lambda>sum (a, b). sum + a * b) acc ps = acc + (\<Sum>(a, b)\<leftarrow>ps. a * b)" for acc :: real
  by (induction ps arbitrary: acc) auto

lemma vec_norm_zero_iff: "vec_norm v = 0 \<longleftrightarrow> (\<forall>a\<in>set v. a = 0)"
proof -
  have nonneg: "0 \<le> (\<Sum>a\<leftarrow>xs. a * a)" for xs :: "real list"
    by (induction xs) simp_all
  have "(\<Sum>a\<leftarrow>v. a * a) = 0 \<longleftrightarrow> (\<forall>a\<in>set v. a = 0)"
  proof (induction v)
    case Nil
    show ?case by simp
  next
    case (Cons x xs)
    have "x * x + (\<Sum>a\<leftarrow>xs. a * a) = 0 \<longleftrightarrow> x * x = 0 \<and> (\<Sum>a\<leftarrow>xs. a * a) = 0"
      using nonneg [of xs] by (intro add_nonneg_eq_0_iff) simp_all
    then show ?case using Cons.IH by simp
  qed
  then show ?thesis
    by (simp add: vec_norm_def foldl_squares)
qed

lemma dotProduct_zero_left: "\<forall>a\<in>set v1. a = 0 \<Longrightarrow> dotProduct v1 v2 = 0"
proof -
  assume z: "\<forall>a\<in>set v1. a = 0"
  have "(\<Sum>(a, b)\<leftarrow>zip v1 v2. a * b) = 0"
    using z by (induction v1 arbitrary: v2) (auto simp: zip_Cons1 split: list.splits)
  then show ?thesis by (simp add: dotProduct_def foldl_products)
qed

lemma dotProduct_zero_right: "\<forall>b\<in>set v2. b = 0 \<Longrightarrow> dotProduct v1 v2 = 0"
proof -
  assume z: "\<forall>b\<in>set v2. b = 0"
  have "(\<Sum>(a, b)\<leftarrow>zip v1 v2. a * b) = 0"
    using z by (induction v2 arbitrary: v1) (auto simp: zip_Cons split: list.splits)
  then show ?thesis by (simp add: dotProduct_def foldl_products)
qed

lemma sqrt_25: "sqrt 25 = 5"
  using real_sqrt_abs [of 5] by simp

section \<open>Facts about the query\<close>

lemma scan_path: "r \<in> set (scan k cur m db) \<Longrightarrow> path r \<noteq> k"
  by (induction db) (auto split: if_splits sum.splits)

lemma scan_ge: "r \<in> set (scan k cur m db) \<Longrightarrow> js_ge (similarity r) m"
  by (induction db) (auto split: if_splits sum.splits)

lemma set_insert_by: "set (insert_by cmp x ys) = insert x (set ys)"
  by (induction ys) auto

lemma set_Array_sort: "set (Array_sort cmp xs) = set xs"
  by (induction xs) (auto simp: set_insert_by)

lemma set_Array_slice0: "set (Array_slice0 n xs) \<subseteq> set xs"
  by (simp add: Array_slice0_def set_take_subset)

lemma js_ge_not_NaN: "js_ge a b \<Longrightarrow> a \<noteq> NaN"
  by (cases a) auto

lemma js_ge_not_lt: "js_ge a b \<Longrightarrow> \<not> js_lt a b"
  by (cases a; cases b) auto

lemma js_ge_trans: "js_ge a b \<Longrightarrow> js_ge b c \<Longrightarrow> js_ge a c"
  by (cases a; cases b; cases c) auto

lemma positive_sub: "positive (js_sub b a) \<Longrightarrow> js_ge b a"
  by (cases a; cases b) auto

lemma not_positive_sub:
  "a \<noteq> NaN \<Longrightarrow> b \<noteq> NaN \<Longrightarrow> \<not> positive (js_sub b a) \<Longrightarrow> js_ge a b"
  by (cases a; cases b) auto

lemma descending_insert_by:
  assumes "descending ys" and "similarity x \<noteq> NaN" and "\<forall>y\<in>set ys. similarity y \<noteq> NaN"
  shows "descending (insert_by by_similarity x ys)"
  using assms
proof (induction ys)
  case Nil
  then show ?case by (simp add: descending_def)
next
  case (Cons y ys)
  show ?case
  proof (cases "positive (by_similarity x y)")
    case True
    then have yx: "js_ge (similarity y) (similarity x)"
      by (simp add: by_similarity_def positive_sub)
    have "descending (insert_by by_similarity x ys)"
      using Cons by (simp add: descending_def)
    then show ?thesis
      using True Cons.prems(1) yx by (auto simp: descending_def set_insert_by)
  next
    case False
    then have xy: "js_ge (similarity x) (similarity y)"
      using Cons.prems by (simp add: by_similarity_def not_positive_sub)
    then have "\<forall>z\<in>set ys. js_ge (similarity x) (similarity z)"
      using Cons.prems(1) js_ge_trans by (auto simp: descending_def)
    then show ?thesis
      using False xy Cons.prems(1) by (simp add: descending_def)
  qed
qed

lemma descending_Array_sort:
  "\<forall>x\<in>set xs. similarity x \<noteq> NaN \<Longrightarrow> descending (Array_sort by_similarity xs)"
proof (induction xs)
  case Nil
  then show ?case by (simp add: descending_def)
next
  case (Cons x xs)
  then show ?case
    by (simp add: descending_insert_by set_Array_sort)
qed

lemma descending_slice: "descending xs \<Longrightarrow> descending (Array_slice0 n xs)"
  by (simp add: descending_def Array_slice0_def sorted_wrt_take)

lemma findSimilarNotes_results:
  assumes "findSimilarNotes w k n m = (Inr rs, w')"
  shows "rs = [] \<or>
         (\<exists>cur db. rs = Array_slice0 n (Array_sort by_similarity (scan k cur m db)))"
  using assms
  by (auto simp: findSimilarNotes_def split: sum.splits option.splits prod.splits)

lemma scan_tied:
  "r \<in> set (scan k cur m db) \<Longrightarrow>
     \<exists>d. (path r, d) \<in> set db
       \<and> calculateCosineSimilarity cur (embedding d) = Inr (similarity r)"
proof (induction db)
  case Nil
  then show ?case by simp
next
  case (Cons e db)
  obtain p0 d0 where e: "e = (p0, d0)" by (cases e)
  show ?case
  proof (cases "r \<in> set (scan k cur m db)")
    case True
    from Cons.IH [OF True] show ?thesis by auto
  next
    case False
    with Cons.prems e have
      "path r = p0 \<and> calculateCosineSimilarity cur (embedding d0) = Inr (similarity r)"
      by (auto split: if_splits sum.splits)
    with e show ?thesis by auto
  qed
qed

lemma findSimilarNotes_scan:
  assumes "findSimilarNotes w k n m = (Inr rs, w')"
  shows "rs = [] \<or>
         (\<exists>cur db. getEmbedding w k = Inr (Some cur) \<and> getAllEmbeddings w = Inr db
            \<and> rs = Array_slice0 n (Array_sort by_similarity (scan k (embedding cur) m db)))"
  using assms
  by (auto simp: findSimilarNotes_def split: sum.splits option.splits prod.splits)

lemma findSimilarNotes_from_scan:
  assumes "findSimilarNotes w k n m = (Inr rs, w')" and "r \<in> set rs"
  shows "\<exists>cur db. getEmbedding w k = Inr (Some cur) \<and> getAllEmbeddings w = Inr db
            \<and> r \<in> set (scan k (embedding cur) m db)"
proof -
  from findSimilarNotes_scan [OF assms(1)] assms(2)
  obtain cur db where g: "getEmbedding w k = Inr (Some cur)" "getAllEmbeddings w = Inr db"
    and rs: "rs = Array_slice0 n (Array_sort by_similarity (scan k (embedding cur) m db))"
    by auto
  have "r \<in> set (scan k (embedding cur) m db)"
    using assms(2) set_Array_slice0 [of n "Array_sort by_similarity (scan k (embedding cur) m db)"]
    unfolding rs by (auto simp: set_Array_sort)
  with g show ?thesis by blast
qed

lemma findSimilarNotes_total: "\<exists>rs w'. findSimilarNotes w k n m = (Inr rs, w')"
  using loadDatabase_total [of w]
  by (auto simp: findSimilarNotes_def getEmbedding_def getAllEmbeddings_def
        split: sum.splits option.splits prod.splits)

section \<open>Facts about updateNoteEmbedding\<close>



section \<open>Claims\<close>

subsection \<open>C1: no lost update between two puts\<close>

text \<open>
  The source has no queue and no lock: the two tasks below are \<open>saveEmbedding\<close> calls for
  distinct keys on an empty store. Both load before either saves; both finish without an
  error, and the database read afterwards holds only the key of the task that saved last.
\<close>

theorem lost_update_counterexample:
  "fst (run [0, 1, 0, 1]
          [Waiting (Put ''a.md'' [1, 0] 100), Waiting (Put ''b.md'' [0, 1] 100)] (world_of None))
     = [Done (Inr ()), Done (Inr ())]
   \<and> getAllEmbeddings (snd (run [0, 1, 0, 1]
          [Waiting (Put ''a.md'' [1, 0] 100), Waiting (Put ''b.md'' [0, 1] 100)] (world_of None)))
     = Inr [(''b.md'', \<lparr>embedding = [0, 1], last_updated = 1000, file_mtime = 100\<rparr>)]"
  by (simp add: world_of_def getEmbedding_def getAllEmbeddings_def loadDatabase_def
        loadDatabase_try_def adapter_read_def adapter_write_def saveDatabase_def saveEmbedding_def
        JSON_stringify_def notifyUpdateCallbacks_def)

text \<open>
  C1, as the code has it: each put is a bare load-modify-save cycle. When two puts for
  distinct keys run one after the other, the second starting after the first has saved,
  and the storage can be read and written, the database read after both holds the latest
  value of both keys.
\<close>

theorem sequential_puts_survive:
  assumes "k1 \<noteq> k2" and "read_error w = None" and "write_error w = None"
  shows "\<exists>db. getAllEmbeddings (snd (run [0, 0, 1, 1]
                  [Waiting (Put k1 v1 m1), Waiting (Put k2 v2 m2)] w)) = Inr db
            \<and> map_of db k1 = Some \<lparr>embedding = v1, last_updated = now w, file_mtime = m1\<rparr>
            \<and> map_of db k2 = Some \<lparr>embedding = v2, last_updated = now w, file_mtime = m2\<rparr>"
proof -
  obtain db where db: "loadDatabase w = Inr db"
    using loadDatabase_total by blast
  show ?thesis
    using assms db
    by (auto simp: getEmbedding_def getAllEmbeddings_def loadDatabase_def
        loadDatabase_try_def adapter_read_def adapter_write_def saveDatabase_def saveEmbedding_def
        JSON_stringify_def notifyUpdateCallbacks_def update_conv' split: option.splits sum.splits blob.splits)
qed

theorem sequential_puts_survive_witness:
  "''a.md'' \<noteq> ''b.md'' \<and> read_error (world_of None) = None
   \<and> write_error (world_of None) = None
   \<and> (\<exists>db. getAllEmbeddings (snd (run [0, 0, 1, 1]
                [Waiting (Put ''a.md'' [1, 0] 100), Waiting (Put ''b.md'' [0, 1] 200)]
                (world_of None))) = Inr db
          \<and> map_of db ''a.md'' = Some \<lparr>embedding = [1, 0], last_updated = 1000, file_mtime = 100\<rparr>
          \<and> map_of db ''b.md'' = Some \<lparr>embedding = [0, 1], last_updated = 1000, file_mtime = 200\<rparr>)"
proof -
  have ne: "''a.md'' \<noteq> ''b.md''" by simp
  have r: "read_error (world_of None) = None" by (simp add: world_of_def)
  have wr: "write_error (world_of None) = None" by (simp add: world_of_def)
  have n: "now (world_of None) = 1000" by (simp add: world_of_def)
  show ?thesis
    using ne r wr sequential_puts_survive [OF ne r wr, of "[1, 0]" 100 "[0, 1]" 200]
    unfolding n by simp
qed

subsection \<open>C2: cosine similarity of a zero-norm vector\<close>

text \<open>
  The first vector has norm zero and the same length as the second; the result is \<open>NaN\<close>.
\<close>

theorem zero_norm_counterexample:
  "vec_norm [0, 0, 0] = 0 \<and> calculateCosineSimilarity [0, 0, 0] [1, 2, 2] = Inr NaN"
  by (simp add: calculateCosineSimilarity_def vec_norm_def dotProduct_def js_div_def)

text \<open>
  C2, as the code has it: the only guard of \<open>calculateCosineSimilarity\<close> is the one on the
  lengths. For every pair of equal-length vectors where all components of at least one
  vector are zero (the zero norm that no rounding is involved in), the quotient is \<open>0/0\<close>
  and the function returns \<open>NaN\<close>.
\<close>

theorem zero_vector_gives_NaN:
  assumes "length vec1 = length vec2"
    and "(\<forall>a\<in>set vec1. a = 0) \<or> (\<forall>b\<in>set vec2. b = 0)"
  shows "calculateCosineSimilarity vec1 vec2 = Inr NaN"
proof -
  have "dotProduct vec1 vec2 = 0"
    using assms(2) dotProduct_zero_left dotProduct_zero_right by blast
  moreover have "vec_norm vec1 * vec_norm vec2 = 0"
    using assms(2) vec_norm_zero_iff by auto
  ultimately show ?thesis
    using assms(1) by (simp add: calculateCosineSimilarity_def js_div_def)
qed

theorem zero_vector_gives_NaN_witness:
  "length [3, 4 :: real] = length [0, 0 :: real] \<and> set [0, 0 :: real] = {0}
   \<and> calculateCosineSimilarity [3, 4] [0, 0] = Inr NaN"
proof -
  have l: "length [3, 4 :: real] = length [0, 0 :: real]" by simp
  have z: "(\<forall>a\<in>set [3, 4 :: real]. a = 0) \<or> (\<forall>b\<in>set [0, 0 :: real]. b = 0)"
    by simp
  show ?thesis
    using l zero_vector_gives_NaN [OF l z] by simp
qed

subsection \<open>C3: loading the durable mapping\<close>

text \<open>
  The storage holds a well-formed database but cannot be read; \<open>loadDatabase\<close> answers with
  the empty mapping, not with an error.
\<close>

theorem read_failure_counterexample:
  "adapter_read world_unavailable = Inl (IoError ''storage unavailable'')
   \<and> loadDatabase world_unavailable = Inr []"
  by (simp add: world_unavailable_def world_of_def adapter_read_def loadDatabase_def
        loadDatabase_try_def)

text \<open>
  C3, as the code has it: \<open>loadDatabase\<close> fails open in both cases. An unparseable blob is
  treated as the empty mapping, and so is any failure of the read itself (storage
  unavailable, file missing): no error reaches the caller.
\<close>

theorem loadDatabase_fails_open:
  "(adapter_read w = Inr Unparseable \<longrightarrow> loadDatabase w = Inr [])
   \<and> (adapter_read w = Inl e \<longrightarrow> loadDatabase w = Inr [])"
  by (simp add: loadDatabase_def loadDatabase_try_def)

theorem loadDatabase_fails_open_witness:
  "adapter_read (world_of (Some Unparseable)) = Inr Unparseable
   \<and> loadDatabase (world_of (Some Unparseable)) = Inr []
   \<and> adapter_read (world_of None) = Inl (IoError ''ENOENT: no such file or directory'')
   \<and> loadDatabase (world_of None) = Inr []"
proof -
  have a: "adapter_read (world_of (Some Unparseable)) = Inr Unparseable"
    by (simp add: adapter_read_def world_of_def)
  have b: "adapter_read (world_of None) = Inl (IoError ''ENOENT: no such file or directory'')"
    by (simp add: adapter_read_def world_of_def)
  show ?thesis
    using a b
      loadDatabase_fails_open [of "world_of (Some Unparseable)"]
      loadDatabase_fails_open [of "world_of None" "IoError ''ENOENT: no such file or directory''"]
    by simp
qed

subsection \<open>C4: failure of the query-time bootstrap embedding\<close>

text \<open>
  The query note has no record, it is a markdown file of the vault, and the provider
  answers with status 500: the bootstrap attempt fails and \<open>findSimilarNotes\<close> returns \<open>[]\<close>.
\<close>

theorem bootstrap_failure_counterexample:
  "getEmbedding world_failing ''n.md'' = Inr None
   \<and> fst (bootstrap world_failing ''n.md'')
       = Inl (Error ''OpenAI server error. Please try again later.'')
   \<and> fst (findSimilarNotes world_failing ''n.md'' 5 (Num (3/4))) = Inr []"
  by (simp add: world_failing_def world_of_def one_note_def note_file_def no_provider_def getEmbedding_def getAllEmbeddings_def loadDatabase_def
        loadDatabase_try_def adapter_read_def adapter_write_def saveDatabase_def saveEmbedding_def
        JSON_stringify_def notifyUpdateCallbacks_def bootstrap_def generateEmbedding_def trim_def
        is_whitespace_def findSimilarNotes_def)

text \<open>
  C4, as the code has it: when the query note has no stored embedding and the bootstrap
  attempt fails, the \<open>catch\<close> of \<open>findSimilarNotes\<close> takes the failure and the caller
  receives the empty result list.
\<close>

theorem bootstrap_failure_swallowed:
  assumes "getEmbedding w notePath = Inr None" and "bootstrap w notePath = (Inl e, w')"
  shows "findSimilarNotes w notePath maxResults minSimilarity = (Inr [], w')"
  using assms by (simp add: findSimilarNotes_def)

theorem bootstrap_failure_swallowed_witness:
  "getEmbedding world_failing ''n.md'' = Inr None
   \<and> bootstrap world_failing ''n.md''
       = (Inl (Error ''OpenAI server error. Please try again later.''),
          world_failing\<lparr>requests := [''hello'']\<rparr>)
   \<and> findSimilarNotes world_failing ''n.md'' 5 (Num (3/4))
       = (Inr [], world_failing\<lparr>requests := [''hello'']\<rparr>)"
proof -
  have g: "getEmbedding world_failing ''n.md'' = Inr None"
    by (simp add: world_failing_def world_of_def one_note_def note_file_def no_provider_def getEmbedding_def getAllEmbeddings_def loadDatabase_def
        loadDatabase_try_def adapter_read_def adapter_write_def saveDatabase_def saveEmbedding_def
        JSON_stringify_def notifyUpdateCallbacks_def)
  have b: "bootstrap world_failing ''n.md''
             = (Inl (Error ''OpenAI server error. Please try again later.''),
                world_failing\<lparr>requests := [''hello'']\<rparr>)"
    by (simp add: world_failing_def world_of_def one_note_def note_file_def no_provider_def bootstrap_def generateEmbedding_def trim_def is_whitespace_def)
  show ?thesis
    using g b bootstrap_failure_swallowed [OF g b, of 5 "Num (3/4)"] by simp
qed

subsection \<open>C5: a current record is skipped\<close>




subsection \<open>C6: failure of the provider during updateNoteEmbedding\<close>

text \<open>
  Two failures that do not reach the caller. With the unconfigured client,
  \<open>generateEmbedding\<close> throws and \<open>updateNoteEmbedding\<close> returns \<open>false\<close>. With a provider
  that rejects the request with status 403 and a message naming the unconfigured key, the
  rethrown message contains the same words and the result is \<open>false\<close> again.
\<close>

theorem provider_failure_counterexample:
  "fst (generateEmbedding world_unconfigured ''hello'') = Inl (Error api_key_message)
   \<and> updateNoteEmbedding world_unconfigured ''n.md'' False = (Inr False, world_unconfigured)
   \<and> fst (generateEmbedding world_refused ''hello'')
       = Inl (Error ''Error generating embedding: API key not configured for this project'')
   \<and> fst (updateNoteEmbedding world_refused ''n.md'' False) = Inr False"
  by (simp add: world_failing_def world_unconfigured_def world_refused_def
        refusing_provider_def world_of_def one_note_def note_file_def no_provider_def getEmbedding_def getAllEmbeddings_def loadDatabase_def
        loadDatabase_try_def adapter_read_def adapter_write_def saveDatabase_def saveEmbedding_def
        JSON_stringify_def notifyUpdateCallbacks_def updateNoteEmbedding_def updateNoteEmbedding_try_def
        generateEmbedding_def trim_def is_whitespace_def includes_api_key_message
        startsWith_def)

text \<open>
  C6, as the code has it: when \<open>generateEmbedding\<close> fails during \<open>updateNoteEmbedding\<close>, the
  stored database is left exactly as it was. The error reaches the caller unless its
  message contains \<open>API key not configured\<close>; in that case the call returns \<open>false\<close>.
\<close>

theorem provider_failure_leaves_store:
  assumes "vault w p = Some (File f)" and "content f = Inr t"
    and "force \<or> (\<forall>r. getEmbedding w p = Inr (Some r) \<longrightarrow> file_mtime r < mtime f)"
    and "generateEmbedding w t = (Inl e, w')"
  shows "disk (snd (updateNoteEmbedding w p force)) = disk w
       \<and> fst (updateNoteEmbedding w p force)
           = (if String_includes (message e) ''API key not configured'' then Inr False
              else Inl e)"
proof -
  obtain db where db: "loadDatabase w = Inr db"
    using loadDatabase_total by blast
  have "updateNoteEmbedding_try w p force = (Inl e, w')"
  proof (cases force)
    case True
    then show ?thesis
      using assms(1,2,4) by (simp add: updateNoteEmbedding_try_def)
  next
    case False
    with assms(3) have "\<forall>r. map_of db p = Some r \<longrightarrow> \<not> mtime f \<le> file_mtime r"
      using db by (auto simp: getEmbedding_def)
    then show ?thesis
      using False assms(1,2,4) db
      by (auto simp: updateNoteEmbedding_try_def getEmbedding_def split: option.splits)
  qed
  then show ?thesis
    using generateEmbedding_disk [OF assms(4)] by (simp add: updateNoteEmbedding_def)
qed

theorem provider_failure_leaves_store_witness:
  "vault world_failing ''n.md'' = Some (note_file 100)
   \<and> generateEmbedding world_failing ''hello''
       = (Inl (Error ''OpenAI server error. Please try again later.''),
          world_failing\<lparr>requests := [''hello'']\<rparr>)
   \<and> disk (snd (updateNoteEmbedding world_failing ''n.md'' False)) = disk world_failing
   \<and> fst (updateNoteEmbedding world_failing ''n.md'' False)
       = Inl (Error ''OpenAI server error. Please try again later.'')"
proof -
  have v: "vault world_failing ''n.md''
             = Some (File \<lparr>extension = ''md'', mtime = 100, content = Inr ''hello''\<rparr>)"
    by (simp add: world_failing_def world_unconfigured_def world_refused_def
        refusing_provider_def world_of_def one_note_def note_file_def no_provider_def)
  have c: "content \<lparr>extension = ''md'', mtime = 100, content = Inr ''hello''\<rparr> = Inr ''hello''"
    by simp
  have n: "False \<or> (\<forall>r. getEmbedding world_failing ''n.md'' = Inr (Some r)
             \<longrightarrow> file_mtime r
                   < mtime \<lparr>extension = ''md'', mtime = 100, content = Inr ''hello''\<rparr>)"
    by (simp add: world_failing_def world_unconfigured_def world_refused_def
        refusing_provider_def world_of_def one_note_def note_file_def no_provider_def getEmbedding_def getAllEmbeddings_def loadDatabase_def
        loadDatabase_try_def adapter_read_def adapter_write_def saveDatabase_def saveEmbedding_def
        JSON_stringify_def notifyUpdateCallbacks_def)
  have g: "generateEmbedding world_failing ''hello''
             = (Inl (Error ''OpenAI server error. Please try again later.''),
                world_failing\<lparr>requests := [''hello'']\<rparr>)"
    by (simp add: world_failing_def world_unconfigured_def world_refused_def
        refusing_provider_def world_of_def one_note_def note_file_def no_provider_def generateEmbedding_def trim_def is_whitespace_def)
  have i: "\<not> String_includes ''OpenAI server error. Please try again later.''
               ''API key not configured''"
    by (simp add: startsWith_def)
  show ?thesis
    using v g i provider_failure_leaves_store [OF v c n g]
    by (simp add: note_file_def)
qed

subsection \<open>C7: the query note is never among the results\<close>

text \<open>
  C7: whatever the stored documents and the query key \<open>k\<close>, no match returned by
  \<open>findSimilarNotes k\<close> has the path \<open>k\<close>: the loop skips the query key unconditionally.
\<close>

theorem self_exclusion:
  assumes "findSimilarNotes w k maxResults minSimilarity = (Inr rs, w')"
  shows "\<forall>r\<in>set rs. path r \<noteq> k"
  using findSimilarNotes_results [OF assms] set_Array_slice0 scan_path
  by (fastforce simp: set_Array_sort)

theorem self_exclusion_witness:
  "findSimilarNotes (world_of (Some (Json four_notes))) ''A.md'' 2 (Num (1/2))
     = (Inr [\<lparr>path = ''D.md'', title = ''D'', similarity = Num 1\<rparr>,
             \<lparr>path = ''dir/C.md'', title = ''C'', similarity = Num (3/5)\<rparr>],
        world_of (Some (Json four_notes)))
   \<and> path \<lparr>path = ''D.md'', title = ''D'', similarity = Num 1\<rparr> \<noteq> ''A.md''
   \<and> path \<lparr>path = ''dir/C.md'', title = ''C'', similarity = Num (3/5)\<rparr> \<noteq> ''A.md''"
proof -
  have q: "findSimilarNotes (world_of (Some (Json four_notes))) ''A.md'' 2 (Num (1/2))
     = (Inr [\<lparr>path = ''D.md'', title = ''D'', similarity = Num 1\<rparr>,
             \<lparr>path = ''dir/C.md'', title = ''C'', similarity = Num (3/5)\<rparr>],
        world_of (Some (Json four_notes)))"
    by (simp add: findSimilarNotes_def calculateCosineSimilarity_def vec_norm_def
        dotProduct_def js_div_def by_similarity_def Array_slice0_def title_of_def
        String_split_def startsWith_def four_notes_def rec_a_def rec_b_def rec_c_def rec_d_def getEmbedding_def getAllEmbeddings_def loadDatabase_def
        loadDatabase_try_def adapter_read_def adapter_write_def saveDatabase_def saveEmbedding_def
        JSON_stringify_def notifyUpdateCallbacks_def world_of_def sqrt_25)
  show ?thesis
    using q self_exclusion [OF q] by simp
qed

subsection \<open>C8: every result reaches the threshold\<close>

text \<open>
  C8: every match returned by \<open>findSimilarNotes\<close> carries the cosine similarity of the
  query's stored vector and the stored vector of the entry it names, and that similarity
  is \<open>>= minSimilarity\<close>, never strictly below it. No candidate of the database whose
  cosine similarity to the query is strictly below \<open>minSimilarity\<close> is returned (the
  database, an object, holds each key once).
\<close>

theorem threshold_correctness:
  assumes "findSimilarNotes w k maxResults minSimilarity = (Inr rs, w')"
  shows "(\<forall>r\<in>set rs. js_ge (similarity r) minSimilarity
                    \<and> \<not> js_lt (similarity r) minSimilarity
                    \<and> (\<exists>cur db d. getEmbedding w k = Inr (Some cur)
                          \<and> getAllEmbeddings w = Inr db \<and> (path r, d) \<in> set db
                          \<and> calculateCosineSimilarity (embedding cur) (embedding d)
                              = Inr (similarity r)))
       \<and> (\<forall>cur db p d s. getEmbedding w k = Inr (Some cur) \<and> getAllEmbeddings w = Inr db
              \<and> distinct (map fst db) \<and> (p, d) \<in> set db
              \<and> calculateCosineSimilarity (embedding cur) (embedding d) = Inr s
              \<and> js_lt s minSimilarity
            \<longrightarrow> (\<forall>r\<in>set rs. path r \<noteq> p))"
proof (rule conjI)
  show "\<forall>r\<in>set rs. js_ge (similarity r) minSimilarity
                    \<and> \<not> js_lt (similarity r) minSimilarity
                    \<and> (\<exists>cur db d. getEmbedding w k = Inr (Some cur)
                          \<and> getAllEmbeddings w = Inr db \<and> (path r, d) \<in> set db
                          \<and> calculateCosineSimilarity (embedding cur) (embedding d)
                              = Inr (similarity r))"
  proof
    fix r assume "r \<in> set rs"
    from findSimilarNotes_from_scan [OF assms this]
    obtain cur db where g: "getEmbedding w k = Inr (Some cur)" "getAllEmbeddings w = Inr db"
      and r: "r \<in> set (scan k (embedding cur) minSimilarity db)"
      by blast
    from scan_ge [OF r] have ge: "js_ge (similarity r) minSimilarity" .
    from scan_tied [OF r] obtain d where "(path r, d) \<in> set db"
      and "calculateCosineSimilarity (embedding cur) (embedding d) = Inr (similarity r)"
      by blast
    with g ge js_ge_not_lt [OF ge]
    show "js_ge (similarity r) minSimilarity
            \<and> \<not> js_lt (similarity r) minSimilarity
            \<and> (\<exists>cur db d. getEmbedding w k = Inr (Some cur)
                  \<and> getAllEmbeddings w = Inr db \<and> (path r, d) \<in> set db
                  \<and> calculateCosineSimilarity (embedding cur) (embedding d)
                      = Inr (similarity r))"
      by blast
  qed
next
  show "\<forall>cur db p d s. getEmbedding w k = Inr (Some cur) \<and> getAllEmbeddings w = Inr db
              \<and> distinct (map fst db) \<and> (p, d) \<in> set db
              \<and> calculateCosineSimilarity (embedding cur) (embedding d) = Inr s
              \<and> js_lt s minSimilarity
            \<longrightarrow> (\<forall>r\<in>set rs. path r \<noteq> p)"
  proof (intro allI impI ballI)
    fix cur db p d s r
    assume h: "getEmbedding w k = Inr (Some cur) \<and> getAllEmbeddings w = Inr db
              \<and> distinct (map fst db) \<and> (p, d) \<in> set db
              \<and> calculateCosineSimilarity (embedding cur) (embedding d) = Inr s
              \<and> js_lt s minSimilarity"
      and r: "r \<in> set rs"
    from findSimilarNotes_from_scan [OF assms r] h
    have sc: "r \<in> set (scan k (embedding cur) minSimilarity db)"
      by auto
    from scan_tied [OF sc] obtain d' where d': "(path r, d') \<in> set db"
      and c: "calculateCosineSimilarity (embedding cur) (embedding d') = Inr (similarity r)"
      by blast
    show "path r \<noteq> p"
    proof
      assume "path r = p"
      with d' h have "d' = d"
        by (metis eq_key_imp_eq_value)
      with c h have "similarity r = s" by simp
      with scan_ge [OF sc] h js_ge_not_lt show False by blast
    qed
  qed
qed

theorem threshold_correctness_witness:
  "findSimilarNotes (world_of (Some (Json four_notes))) ''dir/B.md'' 5 (Num (1/2))
     = (Inr [\<lparr>path = ''dir/C.md'', title = ''C'', similarity = Num (4/5)\<rparr>],
        world_of (Some (Json four_notes)))
   \<and> js_ge (Num (4/5)) (Num (1/2)) \<and> \<not> js_lt (Num (4/5)) (Num (1/2))
   \<and> getEmbedding (world_of (Some (Json four_notes))) ''dir/B.md'' = Inr (Some rec_b)
   \<and> getAllEmbeddings (world_of (Some (Json four_notes))) = Inr four_notes
   \<and> distinct (map fst four_notes)
   \<and> (''A.md'', rec_a) \<in> set four_notes
   \<and> calculateCosineSimilarity (embedding rec_b) (embedding rec_a) = Inr (Num 0)
   \<and> js_lt (Num 0) (Num (1/2))
   \<and> path \<lparr>path = ''dir/C.md'', title = ''C'', similarity = Num (4/5)\<rparr> \<noteq> ''A.md''"
proof -
  let ?w = "world_of (Some (Json four_notes))"
  let ?c = "\<lparr>path = ''dir/C.md'', title = ''C'', similarity = Num (4/5)\<rparr>"
  have q: "findSimilarNotes ?w ''dir/B.md'' 5 (Num (1/2)) = (Inr [?c], ?w)"
    by (simp add: findSimilarNotes_def calculateCosineSimilarity_def vec_norm_def
        dotProduct_def js_div_def by_similarity_def Array_slice0_def title_of_def
        String_split_def startsWith_def four_notes_def rec_a_def rec_b_def rec_c_def rec_d_def
        getEmbedding_def getAllEmbeddings_def loadDatabase_def loadDatabase_try_def
        adapter_read_def world_of_def sqrt_25)
  have g: "getEmbedding ?w ''dir/B.md'' = Inr (Some rec_b)"
    by (simp add: getEmbedding_def loadDatabase_def loadDatabase_try_def adapter_read_def
          world_of_def four_notes_def)
  have a: "getAllEmbeddings ?w = Inr four_notes"
    by (simp add: getAllEmbeddings_def loadDatabase_def loadDatabase_try_def adapter_read_def
          world_of_def)
  have di: "distinct (map fst four_notes)"
    by (simp add: four_notes_def)
  have m: "(''A.md'', rec_a) \<in> set four_notes"
    by (simp add: four_notes_def)
  have c: "calculateCosineSimilarity (embedding rec_b) (embedding rec_a) = Inr (Num 0)"
    by (simp add: calculateCosineSimilarity_def vec_norm_def dotProduct_def js_div_def
          rec_a_def rec_b_def)
  have l: "js_lt (Num 0) (Num (1/2))" by simp
  from threshold_correctness [OF q] have
    "\<forall>r\<in>set [?c]. js_ge (similarity r) (Num (1/2)) \<and> \<not> js_lt (similarity r) (Num (1/2))"
    by blast
  then have t1: "js_ge (similarity ?c) (Num (1/2)) \<and> \<not> js_lt (similarity ?c) (Num (1/2))"
    by simp
  from threshold_correctness [OF q] have t2:
    "\<forall>cur db p d s. getEmbedding ?w ''dir/B.md'' = Inr (Some cur)
              \<and> getAllEmbeddings ?w = Inr db
              \<and> distinct (map fst db) \<and> (p, d) \<in> set db
              \<and> calculateCosineSimilarity (embedding cur) (embedding d) = Inr s
              \<and> js_lt s (Num (1/2))
            \<longrightarrow> (\<forall>r\<in>set [?c]. path r \<noteq> p)"
    by (rule conjunct2)
  from t2 g a di m c l have "path ?c \<noteq> ''A.md''"
    by (metis list.set_intros(1))
  with t1 q g a di m c l show ?thesis by simp
qed

subsection \<open>C9: results are in descending order of similarity\<close>

text \<open>
  C9: in the sequence returned by \<open>findSimilarNotes\<close>, every adjacent pair
  \<open>(r[i], r[i+1])\<close> satisfies \<open>r[i].similarity >= r[i+1].similarity\<close>.
\<close>

theorem ranking_order:
  assumes "findSimilarNotes w k maxResults minSimilarity = (Inr rs, w')"
  shows "\<forall>i. Suc i < length rs \<longrightarrow> js_ge (similarity (rs ! i)) (similarity (rs ! Suc i))"
proof -
  have "descending rs"
    using findSimilarNotes_results [OF assms]
  proof
    assume "rs = []"
    then show ?thesis by (simp add: descending_def)
  next
    assume "\<exists>cur db. rs = Array_slice0 maxResults
                            (Array_sort by_similarity (scan k cur minSimilarity db))"
    then obtain cur db where
      rs: "rs = Array_slice0 maxResults (Array_sort by_similarity (scan k cur minSimilarity db))"
      by blast
    have "\<forall>x\<in>set (scan k cur minSimilarity db). similarity x \<noteq> NaN"
      using scan_ge js_ge_not_NaN by blast
    then show ?thesis
      unfolding rs by (intro descending_slice descending_Array_sort)
  qed
  then show ?thesis
    by (auto simp: descending_def sorted_wrt_iff_nth_less)
qed

theorem ranking_order_witness:
  "findSimilarNotes (world_of (Some (Json four_notes))) ''A.md'' 3 (Num 0)
     = (Inr [\<lparr>path = ''D.md'', title = ''D'', similarity = Num 1\<rparr>,
             \<lparr>path = ''dir/C.md'', title = ''C'', similarity = Num (3/5)\<rparr>,
             \<lparr>path = ''dir/B.md'', title = ''B'', similarity = Num 0\<rparr>],
        world_of (Some (Json four_notes)))
   \<and> js_ge (Num 1) (Num (3/5)) \<and> js_ge (Num (3/5)) (Num 0)"
proof -
  have q: "findSimilarNotes (world_of (Some (Json four_notes))) ''A.md'' 3 (Num 0)
     = (Inr [\<lparr>path = ''D.md'', title = ''D'', similarity = Num 1\<rparr>,
             \<lparr>path = ''dir/C.md'', title = ''C'', similarity = Num (3/5)\<rparr>,
             \<lparr>path = ''dir/B.md'', title = ''B'', similarity = Num 0\<rparr>],
        world_of (Some (Json four_notes)))"
    by (simp add: findSimilarNotes_def calculateCosineSimilarity_def vec_norm_def
        dotProduct_def js_div_def by_similarity_def Array_slice0_def title_of_def
        String_split_def startsWith_def four_notes_def rec_a_def rec_b_def rec_c_def rec_d_def getEmbedding_def getAllEmbeddings_def loadDatabase_def
        loadDatabase_try_def adapter_read_def adapter_write_def saveDatabase_def saveEmbedding_def
        JSON_stringify_def notifyUpdateCallbacks_def world_of_def sqrt_25)
  have "Suc 0 < length [\<lparr>path = ''D.md'', title = ''D'', similarity = Num 1\<rparr>,
             \<lparr>path = ''dir/C.md'', title = ''C'', similarity = Num (3/5)\<rparr>,
             \<lparr>path = ''dir/B.md'', title = ''B'', similarity = Num 0\<rparr>]"
    and "Suc 1 < length [\<lparr>path = ''D.md'', title = ''D'', similarity = Num 1\<rparr>,
             \<lparr>path = ''dir/C.md'', title = ''C'', similarity = Num (3/5)\<rparr>,
             \<lparr>path = ''dir/B.md'', title = ''B'', similarity = Num 0\<rparr>]"
    by simp_all
  with ranking_order [OF q] have
    "js_ge (Num 1) (Num (3/5)) \<and> js_ge (Num (3/5)) (Num 0)"
    by fastforce
  with q show ?thesis by simp
qed

subsection \<open>C10: other keys are left alone\<close>

text \<open>
  The file holds a record under \<open>a.md\<close> and cannot be read. \<open>saveEmbedding\<close> and
  \<open>deleteEmbedding\<close> for the other key \<open>b.md\<close> load the empty mapping and write it back:
  the record under \<open>a.md\<close> is gone from the file.
\<close>

theorem unreadable_store_counterexample:
  "disk world_unavailable = Some (Json [(''a.md'', rec_a)])
   \<and> disk (snd (saveEmbedding world_unavailable ''b.md'' [0, 1] 100))
       = Some (Json [(''b.md'',
            \<lparr>embedding = [0, 1], last_updated = 1000, file_mtime = 100\<rparr>)])
   \<and> disk (snd (deleteEmbedding world_unavailable ''b.md'')) = Some (Json [])"
  by (simp add: world_unavailable_def world_of_def saveEmbedding_def deleteEmbedding_def
        loadDatabase_def loadDatabase_try_def adapter_read_def adapter_write_def
        saveDatabase_def JSON_stringify_def notifyUpdateCallbacks_def)

text \<open>
  C10, as the code has it (frame property of \<open>saveEmbedding\<close> and \<open>deleteEmbedding\<close>): when
  the operation's load succeeds (the file can be read and parses to the mapping), then for
  a key \<open>k\<close> and any other key \<open>k'\<close> present in the mapping, neither \<open>saveEmbedding k\<close> nor
  \<open>deleteEmbedding k\<close> changes the record stored under \<open>k'\<close> (embedding, last_updated and
  file_mtime all stay the same, in the file and as read back), whether the write succeeds
  or fails and with no interleaved mutation.
\<close>

theorem frame_other_keys:
  assumes "k' \<noteq> k" and "read_error w = None" and "disk w = Some (Json db)"
    and "map_of db k' = Some r"
  shows "(\<exists>db'. disk (snd (saveEmbedding w k v m)) = Some (Json db') \<and> map_of db' k' = Some r)
       \<and> getEmbedding (snd (saveEmbedding w k v m)) k' = Inr (Some r)
       \<and> (\<exists>db'. disk (snd (deleteEmbedding w k)) = Some (Json db') \<and> map_of db' k' = Some r)
       \<and> getEmbedding (snd (deleteEmbedding w k)) k' = Inr (Some r)"
proof -
  have load: "loadDatabase w = Inr db"
    using assms(2,3) by (rule loadDatabase_readable)
  have step: "(\<exists>db''. disk (snd (saveDatabase w db')) = Some (Json db'')
                  \<and> map_of db'' k' = Some r)
              \<and> getEmbedding (snd (saveDatabase w db')) k' = Inr (Some r)"
    if "map_of db' k' = Some r" for db'
  proof -
    have d: "\<exists>db''. disk (snd (saveDatabase w db')) = Some (Json db'')
               \<and> map_of db'' k' = Some r"
      using that assms(3,4) by (simp add: saveDatabase_disk)
    then obtain db'' where "disk (snd (saveDatabase w db')) = Some (Json db'')"
      and "map_of db'' k' = Some r" by blast
    moreover have "read_error (snd (saveDatabase w db')) = None"
      using assms(2) by (simp add: saveDatabase_read_error)
    ultimately have "getEmbedding (snd (saveDatabase w db')) k' = Inr (Some r)"
      using loadDatabase_readable [of "snd (saveDatabase w db')" db'']
      by (simp add: getEmbedding_def)
    with d show ?thesis by simp
  qed
  have "map_of (AList.update k x db) k' = Some r" for x
    using assms(1,4) by (simp add: update_conv')
  moreover have "map_of (AList.delete k db) k' = Some r"
    using assms(1,4) by simp
  ultimately show ?thesis
    using load step by (simp add: saveEmbedding_def deleteEmbedding_def)
qed

theorem frame_other_keys_witness:
  "''b.md'' \<noteq> ''a.md''
   \<and> read_error (world_of (Some (Json [(''a.md'', rec_a), (''b.md'', rec_b)]))) = None
   \<and> disk (world_of (Some (Json [(''a.md'', rec_a), (''b.md'', rec_b)])))
       = Some (Json [(''a.md'', rec_a), (''b.md'', rec_b)])
   \<and> map_of [(''a.md'', rec_a), (''b.md'', rec_b)] ''b.md'' = Some rec_b
   \<and> disk (snd (saveEmbedding
         (world_of (Some (Json [(''a.md'', rec_a), (''b.md'', rec_b)]))) ''a.md'' [3, 4] 200))
       = Some (Json [(''a.md'', \<lparr>embedding = [3, 4], last_updated = 1000, file_mtime = 200\<rparr>),
                     (''b.md'', rec_b)])
   \<and> getEmbedding (snd (saveEmbedding
         (world_of (Some (Json [(''a.md'', rec_a), (''b.md'', rec_b)]))) ''a.md'' [3, 4] 200))
       ''b.md'' = Inr (Some rec_b)
   \<and> disk (snd (deleteEmbedding
         (world_of (Some (Json [(''a.md'', rec_a), (''b.md'', rec_b)]))) ''a.md''))
       = Some (Json [(''b.md'', rec_b)])
   \<and> getEmbedding (snd (deleteEmbedding
         (world_of (Some (Json [(''a.md'', rec_a), (''b.md'', rec_b)]))) ''a.md''))
       ''b.md'' = Inr (Some rec_b)"
proof -
  let ?db = "[(''a.md'', rec_a), (''b.md'', rec_b)]"
  have ne: "''b.md'' \<noteq> ''a.md''" by simp
  have rd: "read_error (world_of (Some (Json ?db))) = None"
    by (simp add: world_of_def)
  have dk: "disk (world_of (Some (Json ?db))) = Some (Json ?db)"
    by (simp add: world_of_def)
  have mp: "map_of ?db ''b.md'' = Some rec_b" by simp
  have sv: "disk (snd (saveEmbedding (world_of (Some (Json ?db))) ''a.md'' [3, 4] 200))
       = Some (Json [(''a.md'', \<lparr>embedding = [3, 4], last_updated = 1000, file_mtime = 200\<rparr>),
                     (''b.md'', rec_b)])"
    by (simp add: world_of_def saveEmbedding_def loadDatabase_def loadDatabase_try_def
          adapter_read_def adapter_write_def saveDatabase_def JSON_stringify_def
          notifyUpdateCallbacks_def)
  have dl: "disk (snd (deleteEmbedding (world_of (Some (Json ?db))) ''a.md''))
       = Some (Json [(''b.md'', rec_b)])"
    by (simp add: world_of_def deleteEmbedding_def loadDatabase_def loadDatabase_try_def
          adapter_read_def adapter_write_def saveDatabase_def JSON_stringify_def
          notifyUpdateCallbacks_def AList.delete_eq)
  show ?thesis
    using ne rd dk mp sv dl frame_other_keys [OF ne rd dk mp, of "[3, 4]" 200] by simp
qed

end
